theory Spec2Isabelle
  imports Main "HOL-Library.Word" "HOL-Library.Signed_Division"
begin

section \<open>Data model of the scheduler plugin\<close>

text \<open>
  The plugin of \<^verbatim>\<open>pkg/plugins/scheduler.go\<close> has three entry points:
  \<^verbatim>\<open>PreFilter\<close> (the admission gate), \<^verbatim>\<open>Score\<close> (the node scorer) and
  \<^verbatim>\<open>NormalizeScore\<close> (the score normalizer). Go's \<^verbatim>\<open>int64\<close> is a 64-bit word whose
  arithmetic wraps around; it is read as a signed number with \<open>sint\<close> and compared
  with the signed orders \<open><s\<close> and \<open>\<le>s\<close>. Go's \<^verbatim>\<open>int\<close> is taken to be 64 bits wide;
  the only \<^verbatim>\<open>int\<close> of the plugin is the parsed label, which is never computed with, so it
  is an \<open>int\<close> whose range is checked by the parser.
\<close>

type_synonym int64 = "64 word"

definition MaxInt64 :: int64 where
  "MaxInt64 = 0x7FFFFFFFFFFFFFFF"

definition MinInt64 :: int64 where
  "MinInt64 = 0x8000000000000000"

text \<open>
  Go's \<^verbatim>\<open>/\<close> on \<^verbatim>\<open>int64\<close> truncates towards zero, and the quotient wraps around
  in the one case where it does not fit (\<^verbatim>\<open>MinInt64 / -1\<close>). A zero divisor panics in
  Go; the only division of the plugin by a variable is guarded by \<^verbatim>\<open>rangeScore == 0\<close>.
\<close>

definition int64_quo :: "int64 \<Rightarrow> int64 \<Rightarrow> int64" where
  "int64_quo a b = word_of_int (sint a sdiv sint b)"

text \<open>
  The constants of \<^verbatim>\<open>k8s.io/kubernetes/pkg/scheduler/framework\<close> that the plugin
  uses: the bounds of a normalized score, and the status codes.
\<close>

definition MinNodeScore :: int64 where
  "MinNodeScore = 0"

definition MaxNodeScore :: int64 where
  "MaxNodeScore = 100"

datatype Code = Success | Error | Unschedulable | UnschedulableAndUnresolvable
  | Wait | Skip | Pending

record Status =
  code :: Code
  reasons :: "string list"

definition NewStatus :: "Code \<Rightarrow> string \<Rightarrow> Status" where
  "NewStatus c reason = \<lparr>code = c, reasons = [reason]\<rparr>"

text \<open>A Go \<^verbatim>\<open>error\<close> of a collaborator, as the text that \<^verbatim>\<open>%v\<close> prints.\<close>

datatype error = Err string

fun error_text :: "error \<Rightarrow> string" where
  "error_text (Err msg) = msg"

record Pod =
  Name :: string
  Labels :: "string \<rightharpoonup> string"

text \<open>
  \<^verbatim>\<open>framework.NodeScore\<close> has the fields \<^verbatim>\<open>Name\<close> and \<^verbatim>\<open>Score\<close>; they are
  called \<open>NodeName\<close> and \<open>NodeScore_Score\<close> here, apart from the pod's name and the
  plugin's \<^verbatim>\<open>Score\<close>.
\<close>

record NodeScore =
  NodeName :: string
  NodeScore_Score :: int64

record Resource =
  MilliCPU :: int64
  Memory :: int64
  EphemeralStorage :: int64

record NodeInfo =
  Allocatable :: Resource

text \<open>
  \<^verbatim>\<open>labels.SelectorFromSet\<close> of a label set: the pairs a pod must carry.
\<close>

type_synonym Selector = "(string \<times> string) list"

text \<open>
  The two read-only views that the plugin reaches through \<^verbatim>\<open>framework.Handle\<close>:
  the pod lister of the shared informer factory and the node infos of the snapshot.
  Both return a value or an error.
\<close>

record Handle =
  ListPods :: "Selector \<Rightarrow> error + Pod list"
  GetNodeInfo :: "string \<Rightarrow> error + NodeInfo"

record CustomScheduler =
  handle :: Handle
  scoreMode :: string

definition groupNameLabel :: string where
  "groupNameLabel = ''podGroup''"

definition minAvailableLabel :: string where
  "minAvailableLabel = ''minAvailable''"

definition leastMode :: string where
  "leastMode = ''Least''"

definition mostMode :: string where
  "mostMode = ''Most''"

section \<open>Construction: \<^verbatim>\<open>New\<close>\<close>

text \<open>
  \<^verbatim>\<open>New\<close> takes the plugin arguments, if any, as decoded by \<^verbatim>\<open>json.Unmarshal\<close>
  (a failed decoding is only printed and leaves the mode empty). Without arguments the
  mode is \<^verbatim>\<open>Least\<close>; with arguments the mode must be one of the two literals.
\<close>

record CustomSchedulerArgs =
  Mode :: string

definition New :: "CustomSchedulerArgs option \<Rightarrow> Handle \<Rightarrow> string + CustomScheduler" where
  "New obj h =
     (case obj of
        None \<Rightarrow> Inr \<lparr>handle = h, scoreMode = leastMode\<rparr>
      | Some csArgs \<Rightarrow>
          (let mode = Mode csArgs
           in if mode \<noteq> leastMode \<and> mode \<noteq> mostMode
              then Inl (''invalid mode, got '' @ mode)
              else Inr \<lparr>handle = h, scoreMode = mode\<rparr>))"

section \<open>Parsing the label: \<^verbatim>\<open>strconv.Atoi\<close>\<close>

text \<open>
  \<^verbatim>\<open>strconv.Atoi\<close> of Go's standard library, in base 10: an optional sign \<^verbatim>\<open>+\<close> or
  \<^verbatim>\<open>-\<close>, then at least one decimal digit and nothing else; a value outside the range
  of \<^verbatim>\<open>int\<close> is an error. \<^verbatim>\<open>PreFilter\<close> only tests whether the error is nil.
\<close>

datatype NumError = ErrSyntax | ErrRange

definition is_digit :: "char \<Rightarrow> bool" where
  "is_digit c = (48 \<le> (of_char c :: int) \<and> (of_char c :: int) \<le> 57)"

fun parse_digits :: "string \<Rightarrow> int \<Rightarrow> int option" where
  "parse_digits [] n = Some n"
| "parse_digits (c # cs) n =
     (if is_digit c then parse_digits cs (n * 10 + (of_char c - 48)) else None)"

definition Atoi :: "string \<Rightarrow> NumError + int" where
  "Atoi s =
     (case s of
        [] \<Rightarrow> Inl ErrSyntax
      | c # cs \<Rightarrow>
          (let neg = (c = CHR ''-'');
               ds = (if c = CHR ''-'' \<or> c = CHR ''+'' then cs else s)
           in if ds = [] then Inl ErrSyntax
              else (case parse_digits ds 0 of
                      None \<Rightarrow> Inl ErrSyntax
                    | Some n \<Rightarrow>
                        if neg then (if 2 ^ 63 < n then Inl ErrRange else Inr (- n))
                        else (if 2 ^ 63 \<le> n then Inl ErrRange else Inr n))))"

section \<open>The admission gate: \<^verbatim>\<open>PreFilter\<close>\<close>

text \<open>
  \<^verbatim>\<open>PreFilter\<close> reads the two labels, parses the minimum, lists the pods of the
  group and compares their number with the minimum. The queries sent to the pod lister
  are an effect of the call: the function takes the log of the queries made so far and
  returns it extended. The \<^verbatim>\<open>PreFilterResult\<close> is nil on every path, so the result is
  the status alone. Logging is left out.
\<close>

definition PreFilter :: "CustomScheduler \<Rightarrow> Pod \<Rightarrow> Selector list \<Rightarrow> Status \<times> Selector list" where
  "PreFilter cs pod queries =
     (case (Labels pod groupNameLabel, Labels pod minAvailableLabel) of
        (Some groupName, Some minAvailableStr) \<Rightarrow>
          (case Atoi minAvailableStr of
             Inl err \<Rightarrow> (NewStatus Error ''Invalid minAvailable value.'', queries)
           | Inr minAvailable \<Rightarrow>
               (let selector = [(groupNameLabel, groupName)];
                    queries' = queries @ [selector]
                in case ListPods (handle cs) selector of
                     Inl err \<Rightarrow>
                       (NewStatus Error (''Error listing pods.: '' @ error_text err @ ''.''), queries')
                   | Inr pods \<Rightarrow>
                       if int (length pods) < minAvailable
                       then (NewStatus Unschedulable ''Not enough pods in the group.'', queries')
                       else (NewStatus Success '''', queries')))
      | _ \<Rightarrow> (NewStatus Error ''Invalid label.'', queries))"

section \<open>The node scorer: \<^verbatim>\<open>Score\<close>\<close>

definition Score :: "CustomScheduler \<Rightarrow> Pod \<Rightarrow> string \<Rightarrow> int64 \<times> Status" where
  "Score cs pod nodeName =
     (case GetNodeInfo (handle cs) nodeName of
        Inl err \<Rightarrow> (0, NewStatus Error (''Error getting node info: '' @ error_text err))
      | Inr nodeInfo \<Rightarrow>
          (let memory = Memory (Allocatable nodeInfo);
               score = (if scoreMode cs = leastMode then - memory
                        else if scoreMode cs = mostMode then memory
                        else 0)
           in (score, NewStatus Success '''')))"

section \<open>The score normalizer: \<^verbatim>\<open>NormalizeScore\<close>\<close>

text \<open>
  The first loop scans the scores for their minimum and maximum, starting from
  \<^verbatim>\<open>math.MaxInt64\<close> and \<^verbatim>\<open>math.MinInt64\<close>.
\<close>

fun scan_min_max :: "NodeScore list \<Rightarrow> int64 \<times> int64 \<Rightarrow> int64 \<times> int64" where
  "scan_min_max [] (minScore, maxScore) = (minScore, maxScore)"
| "scan_min_max (score # rest) (minScore, maxScore) =
     scan_min_max rest
       (if NodeScore_Score score <s minScore then NodeScore_Score score else minScore,
        if maxScore <s NodeScore_Score score then NodeScore_Score score else maxScore)"

text \<open>
  The two loops over \<^verbatim>\<open>range scores\<close> write the \<^verbatim>\<open>Score\<close> field of every entry, in
  index order; the entry at an index is read before it is written and at no other time.
\<close>

fun assign_midpoint :: "NodeScore list \<Rightarrow> NodeScore list" where
  "assign_midpoint [] = []"
| "assign_midpoint (score # rest) =
     score\<lparr>NodeScore_Score := MinNodeScore + int64_quo (MaxNodeScore - MinNodeScore) 2\<rparr>
       # assign_midpoint rest"

fun rescale :: "int64 \<Rightarrow> int64 \<Rightarrow> NodeScore list \<Rightarrow> NodeScore list" where
  "rescale minScore rangeScore [] = []"
| "rescale minScore rangeScore (score # rest) =
     score\<lparr>NodeScore_Score :=
         MinNodeScore
           + int64_quo ((NodeScore_Score score - minScore) * (MaxNodeScore - MinNodeScore))
               rangeScore\<rparr>
       # rescale minScore rangeScore rest"

definition NormalizeScore :: "CustomScheduler \<Rightarrow> Pod \<Rightarrow> NodeScore list \<Rightarrow> NodeScore list \<times> Status" where
  "NormalizeScore cs pod scores =
     (let (minScore, maxScore) = scan_min_max scores (MaxInt64, MinInt64);
          rangeScore = maxScore - minScore
      in if rangeScore = 0
         then (assign_midpoint scores, NewStatus Success '''')
         else (rescale minScore rangeScore scores, NewStatus Success ''''))"

section \<open>Test doubles for the collaborators\<close>

text \<open>
  Concrete collaborators, for running the entry points: a pod carrying the two labels,
  a lister over a fixed cache of pods that returns those matching the selector, a lister
  that fails, and a snapshot of nodes given by their allocatable memory.
\<close>

definition labelled_pod :: "string \<Rightarrow> string \<Rightarrow> string \<Rightarrow> Pod" where
  "labelled_pod n g m = \<lparr>Name = n, Labels = [groupNameLabel \<mapsto> g, minAvailableLabel \<mapsto> m]\<rparr>"

definition matches :: "Selector \<Rightarrow> Pod \<Rightarrow> bool" where
  "matches sel p = list_all (\<lambda>(k, v). Labels p k = Some v) sel"

definition cache_lister :: "Pod list \<Rightarrow> Selector \<Rightarrow> error + Pod list" where
  "cache_lister cache sel = Inr (filter (matches sel) cache)"

definition failing_lister :: "Selector \<Rightarrow> error + Pod list" where
  "failing_lister sel = Inl (Err ''informer cache not synced'')"

definition node_snapshot :: "(string \<times> int64) list \<Rightarrow> string \<Rightarrow> error + NodeInfo" where
  "node_snapshot nodes n =
     (case map_of nodes n of
        None \<Rightarrow> Inl (Err ''nodeinfo not found'')
      | Some m \<Rightarrow> Inr \<lparr>Allocatable = \<lparr>MilliCPU = 0, Memory = m, EphemeralStorage = 0\<rparr>\<rparr>)"

definition test_scheduler ::
  "(Selector \<Rightarrow> error + Pod list) \<Rightarrow> (string \<times> int64) list \<Rightarrow> string \<Rightarrow> CustomScheduler" where
  "test_scheduler lister nodes mode =
     \<lparr>handle = \<lparr>ListPods = lister, GetNodeInfo = node_snapshot nodes\<rparr>, scoreMode = mode\<rparr>"

definition gang_cache :: "Pod list" where
  "gang_cache = [labelled_pod ''a'' ''g'' ''2'', labelled_pod ''b'' ''g'' ''2'',
                 labelled_pod ''c'' ''h'' ''1'']"

definition mk_score :: "string \<Rightarrow> int64 \<Rightarrow> NodeScore" where
  "mk_score n s = \<lparr>NodeName = n, NodeScore_Score = s\<rparr>"

text \<open>
  A scheduler in mode \<^verbatim>\<open>Most\<close> over two nodes with 0 and \<open>10 ^ 17\<close> bytes of
  allocatable memory, and the raw scores of the two nodes.
\<close>

definition wide_scheduler :: CustomScheduler where
  "wide_scheduler =
     test_scheduler failing_lister [(''nodeA'', 0), (''nodeB'', 100000000000000000)] mostMode"

definition wide_scores :: "NodeScore list" where
  "wide_scores = [mk_score ''nodeA'' 0, mk_score ''nodeB'' 100000000000000000]"

text \<open>
  The inputs on which the arithmetic of the normalizer stays inside \<^verbatim>\<open>int64\<close>: a
  hundred times the difference of any two raw scores is below \<open>2 ^ 63\<close>.
\<close>

definition no_overflow :: "NodeScore list \<Rightarrow> bool" where
  "no_overflow scores =
     list_all (\<lambda>e. list_all (\<lambda>e'. (sint (NodeScore_Score e') - sint (NodeScore_Score e)) * 100 < 2 ^ 63)
                      scores) scores"

section \<open>Facts about the model\<close>

lemma labels_of_labelled_pod:
  "Labels (labelled_pod n g m) groupNameLabel = Some g"
  "Labels (labelled_pod n g m) minAvailableLabel = Some m"
  by (simp_all add: labelled_pod_def groupNameLabel_def minAvailableLabel_def)

lemma node_snapshot_lookup:
  "map_of nodes n = Some m \<Longrightarrow>
   GetNodeInfo (handle (test_scheduler lister nodes mode)) n
     = Inr \<lparr>Allocatable = \<lparr>MilliCPU = 0, Memory = m, EphemeralStorage = 0\<rparr>\<rparr>"
  by (simp add: test_scheduler_def node_snapshot_def)

lemma least_neq_most: "leastMode \<noteq> mostMode"
  by (simp add: leastMode_def mostMode_def)

text \<open>Every scheduler that \<^verbatim>\<open>New\<close> returns has one of the two modes.\<close>

lemma New_mode:
  "New obj h = Inr cs \<Longrightarrow> scoreMode cs = leastMode \<or> scoreMode cs = mostMode"
  by (auto simp: New_def Let_def split: option.splits if_splits)

text \<open>\<^verbatim>\<open>MaxInt64\<close> and \<^verbatim>\<open>MinInt64\<close> are the ends of the signed order.\<close>

lemma sless_MaxInt64: "\<not> v <s MaxInt64 \<Longrightarrow> v = MaxInt64"
proof -
  assume a: "\<not> v <s MaxInt64"
  have "sint v < 2 ^ (LENGTH(64) - 1)" by (rule sint_lt)
  moreover have "sint MaxInt64 = 2 ^ 63 - 1" by (simp add: MaxInt64_def)
  ultimately have "sint v = sint MaxInt64" using a by (simp add: word_sless_alt)
  then show ?thesis by (rule signed_word_eqI)
qed

lemma MinInt64_sless: "\<not> MinInt64 <s v \<Longrightarrow> v = MinInt64"
proof -
  assume a: "\<not> MinInt64 <s v"
  have "- (2 ^ (LENGTH(64) - 1)) \<le> sint v" by (rule sint_ge)
  moreover have "sint MinInt64 = - (2 ^ 63)" by (simp add: MinInt64_def)
  ultimately have "sint v = sint MinInt64" using a by (simp add: word_sless_alt)
  then show ?thesis by (rule signed_word_eqI)
qed

text \<open>Negation is exact on every value but \<^verbatim>\<open>MinInt64\<close>, which it maps to itself.\<close>

lemma sint_neg:
  fixes m :: int64
  assumes "m \<noteq> MinInt64"
  shows "sint (- m) = - sint m"
proof -
  have "sint m \<noteq> sint MinInt64"
    using assms by (auto dest: signed_word_eqI)
  moreover have "sint MinInt64 = - (2 ^ 63)" by (simp add: MinInt64_def)
  moreover have "- (2 ^ (LENGTH(64) - 1)) \<le> sint m" by (rule sint_ge)
  moreover have "sint m < 2 ^ (LENGTH(64) - 1)" by (rule sint_lt)
  ultimately have "- (2 ^ 63) \<le> - sint m \<and> - sint m < 2 ^ 63" by simp
  then have "signed_take_bit 63 (- sint m) = - sint m"
    by (simp add: signed_take_bit_int_eq_self)
  then show ?thesis by (simp add: sint_word_minus)
qed

lemma neg_MinInt64: "- MinInt64 = MinInt64"
  by (simp add: MinInt64_def)

subsection \<open>The scan and the two rewriting loops\<close>

lemma scan_min_max_const:
  "\<forall>e \<in> set scores. NodeScore_Score e = v \<Longrightarrow> \<not> v <s mn \<Longrightarrow> \<not> mx <s v \<Longrightarrow>
   scan_min_max scores (mn, mx) = (mn, mx)"
  by (induction scores) auto

lemma scan_min_max_all_equal:
  assumes "scores \<noteq> []" and "\<forall>e \<in> set scores. NodeScore_Score e = v"
  shows "scan_min_max scores (MaxInt64, MinInt64) = (v, v)"
proof (cases scores)
  case Nil
  with assms show ?thesis by simp
next
  case (Cons e rest)
  have ev: "NodeScore_Score e = v" using assms Cons by simp
  have rest: "\<forall>e \<in> set rest. NodeScore_Score e = v" using assms Cons by simp
  have mn: "(if v <s MaxInt64 then v else MaxInt64) = v"
    using sless_MaxInt64 [of v] by auto
  have mx: "(if MinInt64 <s v then v else MinInt64) = v"
    using MinInt64_sless [of v] by auto
  have "scan_min_max scores (MaxInt64, MinInt64) = scan_min_max rest (v, v)"
    by (simp only: Cons scan_min_max.simps ev mn mx)
  also have "\<dots> = (v, v)"
    using rest by (rule scan_min_max_const) simp_all
  finally show ?thesis .
qed

lemma assign_midpoint_map:
  "assign_midpoint scores =
   map (\<lambda>e. e\<lparr>NodeScore_Score := MinNodeScore + int64_quo (MaxNodeScore - MinNodeScore) 2\<rparr>) scores"
  by (induction scores) simp_all

lemma rescale_map:
  "rescale minScore rangeScore scores =
   map (\<lambda>e. e\<lparr>NodeScore_Score := MinNodeScore
        + int64_quo ((NodeScore_Score e - minScore) * (MaxNodeScore - MinNodeScore)) rangeScore\<rparr>) scores"
  by (induction scores) simp_all

lemma midpoint_value: "MinNodeScore + int64_quo (MaxNodeScore - MinNodeScore) 2 = 50"
  by (simp add: MinNodeScore_def MaxNodeScore_def int64_quo_def signed_divide_int_def)

lemma erase_assign_midpoint:
  "map (\<lambda>e. e\<lparr>NodeScore_Score := 0\<rparr>) (assign_midpoint scores)
   = map (\<lambda>e. e\<lparr>NodeScore_Score := 0\<rparr>) scores"
  by (induction scores) simp_all

lemma erase_rescale:
  "map (\<lambda>e. e\<lparr>NodeScore_Score := 0\<rparr>) (rescale mn r scores)
   = map (\<lambda>e. e\<lparr>NodeScore_Score := 0\<rparr>) scores"
  by (induction scores) simp_all

lemma erase_NormalizeScore:
  "map (\<lambda>e. e\<lparr>NodeScore_Score := 0\<rparr>) (fst (NormalizeScore cs pod scores))
   = map (\<lambda>e. e\<lparr>NodeScore_Score := 0\<rparr>) scores"
  by (simp add: NormalizeScore_def Let_def erase_assign_midpoint erase_rescale split: prod.split)

subsection \<open>The normalizer's arithmetic where it does not overflow\<close>

lemma scan_min_max_bounds:
  "scan_min_max xs (a, b) = (mn, mx) \<Longrightarrow>
     mn \<le>s a \<and> b \<le>s mx
     \<and> (\<forall>e \<in> set xs. mn \<le>s NodeScore_Score e \<and> NodeScore_Score e \<le>s mx)
     \<and> (mn = a \<or> mn \<in> NodeScore_Score ` set xs)
     \<and> (mx = b \<or> mx \<in> NodeScore_Score ` set xs)"
proof (induction xs arbitrary: a b)
  case Nil
  then show ?case by simp
next
  case (Cons x xs)
  let ?a = "if NodeScore_Score x <s a then NodeScore_Score x else a"
  let ?b = "if b <s NodeScore_Score x then NodeScore_Score x else b"
  from Cons.prems have "scan_min_max xs (?a, ?b) = (mn, mx)" by simp
  from Cons.IH [OF this]
  have ih: "mn \<le>s ?a" "?b \<le>s mx"
    "\<forall>e \<in> set xs. mn \<le>s NodeScore_Score e \<and> NodeScore_Score e \<le>s mx"
    "mn = ?a \<or> mn \<in> NodeScore_Score ` set xs"
    "mx = ?b \<or> mx \<in> NodeScore_Score ` set xs"
    by blast+
  have 1: "mn \<le>s a \<and> mn \<le>s NodeScore_Score x"
    using ih(1) by (auto simp: word_sle_eq word_sless_alt split: if_splits)
  have 2: "b \<le>s mx \<and> NodeScore_Score x \<le>s mx"
    using ih(2) by (auto simp: word_sle_eq word_sless_alt split: if_splits)
  have 3: "mn = a \<or> mn \<in> NodeScore_Score ` set (x # xs)"
    using ih(4) by (auto split: if_splits)
  have 4: "mx = b \<or> mx \<in> NodeScore_Score ` set (x # xs)"
    using ih(5) by (auto split: if_splits)
  from 1 2 3 4 ih(3) show ?case by simp
qed

lemma sdiv_nonneg:
  fixes a b :: int
  assumes "0 \<le> a" and "0 < b"
  shows "a sdiv b = a div b"
  using assms by (cases "a = 0") (simp_all add: signed_divide_int_def)

lemma sint_in_range:
  fixes k :: int
  assumes "- (2 ^ 63) \<le> k" and "k < 2 ^ 63"
  shows "sint (word_of_int k :: int64) = k"
  using assms by (simp add: sint_sbintrunc' signed_take_bit_int_eq_self)

lemma sint_diff_in_range:
  fixes a b :: int64
  assumes "- (2 ^ 63) \<le> sint a - sint b" and "sint a - sint b < 2 ^ 63"
  shows "sint (a - b) = sint a - sint b"
  using assms by (simp add: sint_word_diff signed_take_bit_int_eq_self)

lemma sint_times_100:
  fixes a :: int64
  assumes "0 \<le> sint a" and "sint a * 100 < 2 ^ 63"
  shows "sint (a * 100) = sint a * 100"
proof -
  have "sint (100 :: int64) = 100" by simp
  moreover have "- (2 ^ 63) \<le> sint a * 100" using assms(1) by simp
  ultimately show ?thesis
    using assms(2) by (simp add: sint_word_mult signed_take_bit_int_eq_self)
qed

lemma rescale_value:
  fixes s mn mx :: int64
  assumes "sint mn \<le> sint s" and "sint s \<le> sint mx" and "sint mn < sint mx"
    and "(sint mx - sint mn) * 100 < 2 ^ 63"
  shows "sint (MinNodeScore + int64_quo ((s - mn) * (MaxNodeScore - MinNodeScore)) (mx - mn))
         = ((sint s - sint mn) * 100) div (sint mx - sint mn)"
proof -
  define d where "d = sint s - sint mn"
  define r where "r = sint mx - sint mn"
  have d: "0 \<le> d" "d \<le> r" and r: "0 < r" and r100: "r * 100 < 2 ^ 63"
    using assms by (simp_all add: d_def r_def)
  have rlt: "r < 2 ^ 63" using r100 r by simp
  have sr: "sint (mx - mn) = r"
    unfolding r_def using r rlt by (intro sint_diff_in_range) (simp_all add: r_def)
  have sd: "sint (s - mn) = d"
    unfolding d_def using d rlt by (intro sint_diff_in_range) (simp_all add: d_def)
  have "d * 100 \<le> r * 100" using d by simp
  then have dlt: "d * 100 < 2 ^ 63" using r100 by simp
  have sp: "sint ((s - mn) * 100) = d * 100"
    using sint_times_100 [of "s - mn"] d dlt sd by simp
  have q0: "0 \<le> (d * 100) div r"
    using d r by (simp add: pos_imp_zdiv_nonneg_iff)
  have "(d * 100) div r \<le> (r * 100) div r"
    using d r by (intro zdiv_mono1) simp_all
  moreover have "(r * 100) div r = 100" using r by simp
  ultimately have q1: "(d * 100) div r \<le> 100" by simp
  have "sint (int64_quo ((s - mn) * 100) (mx - mn)) = (d * 100) div r"
    unfolding int64_quo_def sp sr
    using d r q0 q1 by (simp add: sdiv_nonneg sint_in_range)
  then show ?thesis by (simp add: MinNodeScore_def MaxNodeScore_def d_def r_def)
qed

lemma scan_min_max_attained:
  assumes "scores \<noteq> []" and "scan_min_max scores (MaxInt64, MinInt64) = (mn, mx)"
  shows "mn \<in> NodeScore_Score ` set scores \<and> mx \<in> NodeScore_Score ` set scores
         \<and> (\<forall>e \<in> set scores. sint mn \<le> sint (NodeScore_Score e)
                \<and> sint (NodeScore_Score e) \<le> sint mx)"
proof -
  from scan_min_max_bounds [OF assms(2)]
  have b: "\<forall>e \<in> set scores. mn \<le>s NodeScore_Score e \<and> NodeScore_Score e \<le>s mx"
    and mn: "mn = MaxInt64 \<or> mn \<in> NodeScore_Score ` set scores"
    and mx: "mx = MinInt64 \<or> mx \<in> NodeScore_Score ` set scores"
    by blast+
  from assms(1) obtain e where e: "e \<in> set scores" by (cases scores) auto
  have "mn \<in> NodeScore_Score ` set scores"
  proof (cases "mn = MaxInt64")
    case True
    with b e have "\<not> NodeScore_Score e <s MaxInt64"
      by (auto simp: word_sle_eq word_sless_alt)
    then have "NodeScore_Score e = mn" using True by (simp add: sless_MaxInt64)
    with e show ?thesis by force
  next
    case False
    with mn show ?thesis by simp
  qed
  moreover have "mx \<in> NodeScore_Score ` set scores"
  proof (cases "mx = MinInt64")
    case True
    with b e have "\<not> MinInt64 <s NodeScore_Score e"
      by (auto simp: word_sle_eq word_sless_alt)
    then have "NodeScore_Score e = mx" using True by (simp add: MinInt64_sless)
    with e show ?thesis by force
  next
    case False
    with mx show ?thesis by simp
  qed
  ultimately show ?thesis using b by (simp add: word_sle_eq)
qed

lemma no_overflowD:
  "no_overflow scores \<Longrightarrow> a \<in> NodeScore_Score ` set scores \<Longrightarrow> b \<in> NodeScore_Score ` set scores
   \<Longrightarrow> (sint b - sint a) * 100 < 2 ^ 63"
  by (auto simp: no_overflow_def list_all_iff)

lemma NormalizeScore_no_overflow:
  assumes "no_overflow scores" and "scores \<noteq> []"
    and "scan_min_max scores (MaxInt64, MinInt64) = (mn, mx)" and "mx - mn \<noteq> 0"
  shows "fst (NormalizeScore cs pod scores) = rescale mn (mx - mn) scores"
    and "sint mn < sint mx"
    and "\<forall>e \<in> set scores.
           sint mn \<le> sint (NodeScore_Score e) \<and> sint (NodeScore_Score e) \<le> sint mx \<and>
           sint (MinNodeScore + int64_quo ((NodeScore_Score e - mn) * (MaxNodeScore - MinNodeScore)) (mx - mn))
           = ((sint (NodeScore_Score e) - sint mn) * 100) div (sint mx - sint mn)"
proof -
  show "fst (NormalizeScore cs pod scores) = rescale mn (mx - mn) scores"
    using assms(3,4) by (simp add: NormalizeScore_def)
  from scan_min_max_attained [OF assms(2,3)]
  have mn: "mn \<in> NodeScore_Score ` set scores" and mx: "mx \<in> NodeScore_Score ` set scores"
    and b: "\<forall>e \<in> set scores. sint mn \<le> sint (NodeScore_Score e) \<and> sint (NodeScore_Score e) \<le> sint mx"
    by blast+
  from mn b have "sint mn \<le> sint mx" by auto
  moreover have "sint mn \<noteq> sint mx"
    using assms(4) by (auto dest: signed_word_eqI)
  ultimately show lt: "sint mn < sint mx" by simp
  have r: "(sint mx - sint mn) * 100 < 2 ^ 63"
    using assms(1) mn mx by (rule no_overflowD)
  show "\<forall>e \<in> set scores.
           sint mn \<le> sint (NodeScore_Score e) \<and> sint (NodeScore_Score e) \<le> sint mx \<and>
           sint (MinNodeScore + int64_quo ((NodeScore_Score e - mn) * (MaxNodeScore - MinNodeScore)) (mx - mn))
           = ((sint (NodeScore_Score e) - sint mn) * 100) div (sint mx - sint mn)"
  proof (intro ballI conjI)
    fix e assume "e \<in> set scores"
    with b have be: "sint mn \<le> sint (NodeScore_Score e)" "sint (NodeScore_Score e) \<le> sint mx"
      by auto
    show "sint mn \<le> sint (NodeScore_Score e)" by fact
    show "sint (NodeScore_Score e) \<le> sint mx" by fact
    show "sint (MinNodeScore + int64_quo ((NodeScore_Score e - mn) * (MaxNodeScore - MinNodeScore)) (mx - mn))
           = ((sint (NodeScore_Score e) - sint mn) * 100) div (sint mx - sint mn)"
      using be lt r by (rule rescale_value)
  qed
qed

subsection \<open>The normalizer on a concrete vector\<close>

lemma NormalizeScore_wide_scores:
  "fst (NormalizeScore cs pod wide_scores) = [mk_score ''nodeA'' 0, mk_score ''nodeB'' (- 84)]"
  by (simp add: NormalizeScore_def wide_scores_def mk_score_def MaxInt64_def MinInt64_def
      MinNodeScore_def MaxNodeScore_def int64_quo_def word_sless_alt signed_divide_int_def)

section \<open>The admission gate\<close>

text \<open>
  Claim C1. When both labels are present, the minimum parses as the integer \<open>m\<close> and the
  listing for the group label returns the pods \<open>pods\<close>, \<^verbatim>\<open>PreFilter\<close> returns Success
  if and only if \<open>m \<le> length pods\<close>, and Unschedulable when \<open>length pods < m\<close>; for
  \<open>m = 0\<close> it returns Success. The listing is queried once, with the selector of the
  group label.
\<close>

theorem PreFilter_admits_iff:
  assumes "Labels pod groupNameLabel = Some g"
    and "Labels pod minAvailableLabel = Some s"
    and "Atoi s = Inr m"
    and "ListPods (handle cs) [(groupNameLabel, g)] = Inr pods"
  shows "PreFilter cs pod q =
           (if int (length pods) < m then NewStatus Unschedulable ''Not enough pods in the group.''
            else NewStatus Success '''', q @ [[(groupNameLabel, g)]])
         \<and> (code (fst (PreFilter cs pod q)) = Success \<longleftrightarrow> m \<le> int (length pods))
         \<and> (int (length pods) < m \<longrightarrow> code (fst (PreFilter cs pod q)) = Unschedulable)
         \<and> (m = 0 \<longrightarrow> code (fst (PreFilter cs pod q)) = Success)"
  using assms by (simp add: PreFilter_def NewStatus_def)

theorem PreFilter_admits_iff_witness:
  "Atoi ''2'' = Inr 2
   \<and> ListPods (handle (test_scheduler (cache_lister gang_cache) [] leastMode)) [(groupNameLabel, ''g'')]
       = Inr [labelled_pod ''a'' ''g'' ''2'', labelled_pod ''b'' ''g'' ''2'']
   \<and> code (fst (PreFilter (test_scheduler (cache_lister gang_cache) [] leastMode)
                   (labelled_pod ''a'' ''g'' ''2'') [])) = Success"
proof -
  let ?cs = "test_scheduler (cache_lister gang_cache) [] leastMode"
  let ?pod = "labelled_pod ''a'' ''g'' ''2''"
  have h1: "Labels ?pod groupNameLabel = Some ''g''"
    by (rule labels_of_labelled_pod)
  have h2: "Labels ?pod minAvailableLabel = Some ''2''"
    by (rule labels_of_labelled_pod)
  have h3: "Atoi ''2'' = Inr 2"
    by (simp add: Atoi_def is_digit_def)
  have h4: "ListPods (handle ?cs) [(groupNameLabel, ''g'')]
            = Inr [labelled_pod ''a'' ''g'' ''2'', labelled_pod ''b'' ''g'' ''2'']"
    by (simp add: test_scheduler_def cache_lister_def gang_cache_def matches_def
        labelled_pod_def groupNameLabel_def minAvailableLabel_def)
  have "code (fst (PreFilter ?cs ?pod [])) = Success"
    using PreFilter_admits_iff [OF h1 h2 h3 h4, of "[]"] by (simp add: NewStatus_def)
  with h3 h4 show ?thesis by simp
qed

text \<open>
  Claim C7. When the group-name label or the minimum-available label is missing, or the
  minimum-available value does not parse, \<^verbatim>\<open>PreFilter\<close> returns the code Error, which
  is not Unschedulable, and the listing is not consulted: the log of queries is unchanged
  and the result does not depend on the handle.
\<close>

theorem PreFilter_config_error:
  assumes "Labels pod groupNameLabel = None \<or> Labels pod minAvailableLabel = None
           \<or> (\<exists>s e. Labels pod minAvailableLabel = Some s \<and> Atoi s = Inl e)"
  shows "code (fst (PreFilter cs pod q)) = Error
         \<and> code (fst (PreFilter cs pod q)) \<noteq> Unschedulable
         \<and> snd (PreFilter cs pod q) = q
         \<and> PreFilter cs pod q = PreFilter (cs\<lparr>handle := h\<rparr>) pod q"
  using assms by (auto simp: PreFilter_def NewStatus_def split: option.splits)

theorem PreFilter_config_error_witness:
  "Labels \<lparr>Name = ''a'', Labels = [minAvailableLabel \<mapsto> ''2'']\<rparr> groupNameLabel = None
   \<and> code (fst (PreFilter (test_scheduler (cache_lister gang_cache) [] leastMode)
                   \<lparr>Name = ''a'', Labels = [minAvailableLabel \<mapsto> ''2'']\<rparr> [])) = Error
   \<and> Atoi ''two'' = Inl ErrSyntax
   \<and> PreFilter (test_scheduler (cache_lister gang_cache) [] leastMode) (labelled_pod ''a'' ''g'' ''two'') []
       = (NewStatus Error ''Invalid minAvailable value.'', [])"
proof -
  let ?cs = "test_scheduler (cache_lister gang_cache) [] leastMode"
  let ?p1 = "\<lparr>Name = ''a'', Labels = [minAvailableLabel \<mapsto> ''2'']\<rparr>"
  let ?p2 = "labelled_pod ''a'' ''g'' ''two''"
  have h1: "Labels ?p1 groupNameLabel = None"
    by (simp add: groupNameLabel_def minAvailableLabel_def)
  have h2: "Atoi ''two'' = Inl ErrSyntax"
    by (simp add: Atoi_def is_digit_def)
  have h3: "Labels ?p2 minAvailableLabel = Some ''two''"
    by (rule labels_of_labelled_pod)
  have c1: "code (fst (PreFilter ?cs ?p1 [])) = Error"
    using PreFilter_config_error [of ?p1 ?cs "[]"] h1 by simp
  have "code (fst (PreFilter ?cs ?p2 [])) = Error \<and> snd (PreFilter ?cs ?p2 []) = []"
    using PreFilter_config_error [of ?p2 ?cs "[]"] h2 h3 by simp
  moreover have "PreFilter ?cs ?p2 [] = (NewStatus Error ''Invalid minAvailable value.'', [])"
    using h2 by (simp add: PreFilter_def labels_of_labelled_pod)
  ultimately show ?thesis using h1 h2 c1 by simp
qed

text \<open>
  Claim C8, as it stands, fails: a pod whose minimum-available label is \<^verbatim>\<open>-1\<close> is
  admitted. \<^verbatim>\<open>strconv.Atoi\<close> accepts the negative number and \<^verbatim>\<open>PreFilter\<close> has no
  check of its sign.
\<close>

theorem PreFilter_negative_minimum_counterexample:
  "Atoi ''-1'' = Inr (- 1)
   \<and> code (fst (PreFilter (test_scheduler (cache_lister []) [] leastMode)
                   (labelled_pod ''a'' ''g'' ''-1'') [])) = Success"
  by (simp add: PreFilter_def NewStatus_def labels_of_labelled_pod Atoi_def is_digit_def
      test_scheduler_def cache_lister_def)

text \<open>
  Claim C8, amended. When both labels are present and the minimum-available label parses
  as a negative integer, \<^verbatim>\<open>PreFilter\<close> treats it like any other minimum: it queries the
  listing, returns Success whenever the listing succeeds (no count is below a negative
  minimum), returns Error only when the listing itself fails, and never returns
  Unschedulable.
\<close>

theorem PreFilter_negative_minimum:
  assumes "Labels pod groupNameLabel = Some g"
    and "Labels pod minAvailableLabel = Some s"
    and "Atoi s = Inr m"
    and "m < 0"
  shows "snd (PreFilter cs pod q) = q @ [[(groupNameLabel, g)]]
         \<and> code (fst (PreFilter cs pod q)) \<noteq> Unschedulable
         \<and> (\<forall>pods. ListPods (handle cs) [(groupNameLabel, g)] = Inr pods
               \<longrightarrow> PreFilter cs pod q = (NewStatus Success '''', q @ [[(groupNameLabel, g)]]))
         \<and> (\<forall>err. ListPods (handle cs) [(groupNameLabel, g)] = Inl err
               \<longrightarrow> code (fst (PreFilter cs pod q)) = Error)"
  using assms by (auto simp: PreFilter_def NewStatus_def Let_def split: sum.splits)

theorem PreFilter_negative_minimum_witness:
  "Atoi ''-3'' = Inr (- 3)
   \<and> PreFilter (test_scheduler (cache_lister gang_cache) [] leastMode) (labelled_pod ''a'' ''g'' ''-3'') []
       = (NewStatus Success '''', [[(groupNameLabel, ''g'')]])
   \<and> code (fst (PreFilter (test_scheduler failing_lister [] leastMode) (labelled_pod ''a'' ''g'' ''-3'') [])) = Error"
proof -
  let ?pod = "labelled_pod ''a'' ''g'' ''-3''"
  have h1: "Labels ?pod groupNameLabel = Some ''g''"
    by (rule labels_of_labelled_pod)
  have h2: "Labels ?pod minAvailableLabel = Some ''-3''"
    by (rule labels_of_labelled_pod)
  have h3: "Atoi ''-3'' = Inr (- 3)"
    by (simp add: Atoi_def is_digit_def)
  have h4: "(- 3 :: int) < 0" by simp
  have l1: "ListPods (handle (test_scheduler (cache_lister gang_cache) [] leastMode)) [(groupNameLabel, ''g'')]
            = Inr (filter (matches [(groupNameLabel, ''g'')]) gang_cache)"
    by (simp add: test_scheduler_def cache_lister_def)
  have l2: "ListPods (handle (test_scheduler failing_lister [] leastMode)) [(groupNameLabel, ''g'')]
            = Inl (Err ''informer cache not synced'')"
    by (simp add: test_scheduler_def failing_lister_def)
  have "PreFilter (test_scheduler (cache_lister gang_cache) [] leastMode) ?pod []
        = (NewStatus Success '''', [[(groupNameLabel, ''g'')]])"
    using PreFilter_negative_minimum [OF h1 h2 h3 h4, of "test_scheduler (cache_lister gang_cache) [] leastMode" "[]"] l1
    by simp
  moreover have "code (fst (PreFilter (test_scheduler failing_lister [] leastMode) ?pod [])) = Error"
    using PreFilter_negative_minimum [OF h1 h2 h3 h4, of "test_scheduler failing_lister [] leastMode" "[]"] l2
    by simp
  ultimately show ?thesis using h3 by simp
qed

section \<open>The node scorer\<close>




text \<open>
  Claim C6, as it stands, fails in mode \<^verbatim>\<open>Least\<close> at the smallest \<^verbatim>\<open>int64\<close>: the
  memory \<^verbatim>\<open>MinInt64\<close> is below the memory 0, but its raw score \<open>- MinInt64 = MinInt64\<close>
  is not above the raw score 0.
\<close>

theorem Score_least_counterexample:
  "MinInt64 <s 0
   \<and> \<not> fst (Score (test_scheduler failing_lister [(''n1'', MinInt64), (''n2'', 0)] leastMode) (labelled_pod ''a'' ''g'' ''2'') ''n2'')
         <s fst (Score (test_scheduler failing_lister [(''n1'', MinInt64), (''n2'', 0)] leastMode) (labelled_pod ''a'' ''g'' ''2'') ''n1'')"
  by (simp add: Score_def test_scheduler_def node_snapshot_def MinInt64_def word_sless_alt)

text \<open>
  Claim C6, amended. For two nodes with allocatable memory \<open>m1 < m2\<close> (signed), the raw
  score in mode \<^verbatim>\<open>Most\<close> is strictly smaller for \<open>m1\<close> than for \<open>m2\<close>, whatever the values;
  in mode \<^verbatim>\<open>Least\<close> it is strictly greater for \<open>m1\<close> than for \<open>m2\<close> provided \<open>m1\<close> is not
  \<^verbatim>\<open>MinInt64\<close>.
\<close>

theorem Score_strictly_monotone:
  assumes "GetNodeInfo (handle cs) n1 = Inr i1" and "Memory (Allocatable i1) = m1"
    and "GetNodeInfo (handle cs) n2 = Inr i2" and "Memory (Allocatable i2) = m2"
    and "m1 <s m2"
  shows "(scoreMode cs = leastMode \<and> m1 \<noteq> MinInt64 \<longrightarrow> fst (Score cs pod n2) <s fst (Score cs pod n1))
         \<and> (scoreMode cs = mostMode \<longrightarrow> fst (Score cs pod n1) <s fst (Score cs pod n2))"
proof -
  have "m2 \<noteq> MinInt64"
  proof
    assume "m2 = MinInt64"
    moreover have "- (2 ^ (LENGTH(64) - 1)) \<le> sint m1" by (rule sint_ge)
    moreover have "sint MinInt64 = - (2 ^ 63)" by (simp add: MinInt64_def)
    ultimately show False using assms(5) by (simp add: word_sless_alt)
  qed
  then have "m1 \<noteq> MinInt64 \<Longrightarrow> - m2 <s - m1"
    using assms(5) by (simp add: word_sless_alt sint_neg)
  then show ?thesis
    using assms least_neq_most by (auto simp: Score_def)
qed

theorem Score_strictly_monotone_witness:
  "(- 5 :: int64) <s 7 \<and> (- 5 :: int64) \<noteq> MinInt64
   \<and> fst (Score (test_scheduler failing_lister [(''n1'', - 5), (''n2'', 7)] leastMode) (labelled_pod ''a'' ''g'' ''2'') ''n2'')
       <s fst (Score (test_scheduler failing_lister [(''n1'', - 5), (''n2'', 7)] leastMode) (labelled_pod ''a'' ''g'' ''2'') ''n1'')
   \<and> fst (Score (test_scheduler failing_lister [(''n1'', - 5), (''n2'', 7)] mostMode) (labelled_pod ''a'' ''g'' ''2'') ''n1'')
       <s fst (Score (test_scheduler failing_lister [(''n1'', - 5), (''n2'', 7)] mostMode) (labelled_pod ''a'' ''g'' ''2'') ''n2'')"
proof -
  let ?nodes = "[(''n1'', - 5), (''n2'', 7)] :: (string \<times> int64) list"
  have lt: "(- 5 :: int64) <s 7" by (simp add: word_sless_alt)
  have ne: "(- 5 :: int64) \<noteq> MinInt64" by (simp add: MinInt64_def)
  have a: "GetNodeInfo (handle (test_scheduler failing_lister ?nodes mode)) ''n1''
           = Inr \<lparr>Allocatable = \<lparr>MilliCPU = 0, Memory = - 5, EphemeralStorage = 0\<rparr>\<rparr>" for mode
    by (rule node_snapshot_lookup) simp
  have b: "GetNodeInfo (handle (test_scheduler failing_lister ?nodes mode)) ''n2''
           = Inr \<lparr>Allocatable = \<lparr>MilliCPU = 0, Memory = 7, EphemeralStorage = 0\<rparr>\<rparr>" for mode
    by (rule node_snapshot_lookup) simp
  have ma: "Memory (Allocatable \<lparr>Allocatable = \<lparr>MilliCPU = 0, Memory = - 5, EphemeralStorage = 0\<rparr>\<rparr>) = (- 5 :: int64)"
    by simp
  have mb: "Memory (Allocatable \<lparr>Allocatable = \<lparr>MilliCPU = 0, Memory = 7, EphemeralStorage = 0\<rparr>\<rparr>) = (7 :: int64)"
    by simp
  have "fst (Score (test_scheduler failing_lister ?nodes leastMode) (labelled_pod ''a'' ''g'' ''2'') ''n2'')
        <s fst (Score (test_scheduler failing_lister ?nodes leastMode) (labelled_pod ''a'' ''g'' ''2'') ''n1'')"
    using Score_strictly_monotone [OF a ma b mb lt, of leastMode "labelled_pod ''a'' ''g'' ''2''"] ne
    by (simp add: test_scheduler_def)
  moreover have "fst (Score (test_scheduler failing_lister ?nodes mostMode) (labelled_pod ''a'' ''g'' ''2'') ''n1'')
        <s fst (Score (test_scheduler failing_lister ?nodes mostMode) (labelled_pod ''a'' ''g'' ''2'') ''n2'')"
    using Score_strictly_monotone [OF a ma b mb lt, of mostMode "labelled_pod ''a'' ''g'' ''2''"]
    by (simp add: test_scheduler_def)
  ultimately show ?thesis using lt ne by simp
qed

section \<open>The score normalizer\<close>

text \<open>
  Claim C9. On the empty vector \<^verbatim>\<open>NormalizeScore\<close> writes nothing and returns Success
  with the vector still empty. (The range of the empty scan is
  \<^verbatim>\<open>MinInt64 - MaxInt64\<close>, which wraps to 1, so the second loop runs over no entries.)
\<close>

theorem NormalizeScore_empty:
  "NormalizeScore cs pod [] = ([], NewStatus Success '''')"
  by (simp add: NormalizeScore_def MaxInt64_def MinInt64_def)

text \<open>
  Claim C3. On a non-empty vector whose raw scores are all equal, \<^verbatim>\<open>NormalizeScore\<close>
  sets every score to the midpoint \<open>MinNodeScore + (MaxNodeScore - MinNodeScore) / 2\<close>,
  the division truncating, which is 50, and returns Success.
\<close>

theorem NormalizeScore_all_equal:
  assumes "scores \<noteq> []" and "\<forall>e \<in> set scores. NodeScore_Score e = v"
  shows "NormalizeScore cs pod scores =
           (map (\<lambda>e. e\<lparr>NodeScore_Score := 50\<rparr>) scores, NewStatus Success '''')
         \<and> (50 :: int64) = MinNodeScore + int64_quo (MaxNodeScore - MinNodeScore) 2
         \<and> sint (50 :: int64) = sint MinNodeScore + (sint MaxNodeScore - sint MinNodeScore) sdiv 2"
proof -
  have "scan_min_max scores (MaxInt64, MinInt64) = (v, v)"
    using assms by (rule scan_min_max_all_equal)
  then have "NormalizeScore cs pod scores = (assign_midpoint scores, NewStatus Success '''')"
    by (simp add: NormalizeScore_def)
  moreover have "sint (50 :: int64) = sint MinNodeScore + (sint MaxNodeScore - sint MinNodeScore) sdiv 2"
    by (simp add: MinNodeScore_def MaxNodeScore_def signed_divide_int_def)
  ultimately show ?thesis
    by (simp add: assign_midpoint_map midpoint_value)
qed

theorem NormalizeScore_all_equal_witness:
  "[mk_score ''a'' 7, mk_score ''b'' 7] \<noteq> []
   \<and> NormalizeScore wide_scheduler (labelled_pod ''a'' ''g'' ''2'') [mk_score ''a'' 7, mk_score ''b'' 7] =
       ([mk_score ''a'' 50, mk_score ''b'' 50], NewStatus Success '''')"
  using NormalizeScore_all_equal [of "[mk_score ''a'' 7, mk_score ''b'' 7]" 7
      wide_scheduler "labelled_pod ''a'' ''g'' ''2''"]
  by (simp add: mk_score_def)

text \<open>
  Claim C10. \<^verbatim>\<open>NormalizeScore\<close> keeps the length of the vector and the node name at
  every index, and changes nothing but the \<^verbatim>\<open>Score\<close> field: with the scores erased, the
  vector after the call is the vector before it.
\<close>

theorem NormalizeScore_frame:
  "length (fst (NormalizeScore cs pod scores)) = length scores
   \<and> map NodeName (fst (NormalizeScore cs pod scores)) = map NodeName scores
   \<and> map (\<lambda>e. e\<lparr>NodeScore_Score := 0\<rparr>) (fst (NormalizeScore cs pod scores))
       = map (\<lambda>e. e\<lparr>NodeScore_Score := 0\<rparr>) scores"
proof -
  let ?res = "fst (NormalizeScore cs pod scores)"
  have e: "map (\<lambda>e. e\<lparr>NodeScore_Score := 0\<rparr>) ?res = map (\<lambda>e. e\<lparr>NodeScore_Score := 0\<rparr>) scores"
    by (rule erase_NormalizeScore)
  from e have l: "length ?res = length scores"
    by (rule map_eq_imp_length_eq)
  have "map NodeName (map (\<lambda>e. e\<lparr>NodeScore_Score := 0\<rparr>) ?res)
        = map NodeName (map (\<lambda>e. e\<lparr>NodeScore_Score := 0\<rparr>) scores)"
    using e by simp
  then have n: "map NodeName ?res = map NodeName scores"
    by (simp add: comp_def)
  from l n e show ?thesis by simp
qed

text \<open>
  Claim C2 fails on the code. For the raw scores 0 and \<open>10 ^ 17\<close> the product
  \<open>(10 ^ 17 - 0) * 100\<close> does not fit \<^verbatim>\<open>int64\<close> and wraps to a negative number, and
  the normalized score of the second node is \<open>- 84\<close>, below \<^verbatim>\<open>MinNodeScore\<close>.
\<close>

theorem NormalizeScore_out_of_bounds:
  "map (\<lambda>e. fst (Score wide_scheduler (labelled_pod ''a'' ''g'' ''2'') (NodeName e))) wide_scores
     = map NodeScore_Score wide_scores
   \<and> map NodeScore_Score (fst (NormalizeScore wide_scheduler (labelled_pod ''a'' ''g'' ''2'') wide_scores))
     = [0, - 84]
   \<and> sint (- 84 :: int64) = - 84
   \<and> (- 84 :: int64) <s MinNodeScore"
proof -
  have "map (\<lambda>e. fst (Score wide_scheduler (labelled_pod ''a'' ''g'' ''2'') (NodeName e))) wide_scores
        = map NodeScore_Score wide_scores"
    by (simp add: wide_scores_def wide_scheduler_def mk_score_def Score_def test_scheduler_def
        node_snapshot_def least_neq_most [symmetric])
  moreover have "map NodeScore_Score
      (fst (NormalizeScore wide_scheduler (labelled_pod ''a'' ''g'' ''2'') wide_scores)) = [0, - 84]"
    unfolding NormalizeScore_wide_scores by (simp add: mk_score_def)
  moreover have "sint (- 84 :: int64) = - 84 \<and> (- 84 :: int64) <s MinNodeScore"
    by (simp add: MinNodeScore_def word_sless_alt)
  ultimately show ?thesis by simp
qed

text \<open>
  Claim C4 fails on the code, by the same overflow: in the same vector the first raw score
  is below the second, and the first normalized score, 0, is above the second, \<open>- 84\<close>.
\<close>

theorem NormalizeScore_order_broken:
  "NodeScore_Score (wide_scores ! 0) <s NodeScore_Score (wide_scores ! 1)
   \<and> \<not> NodeScore_Score (fst (NormalizeScore wide_scheduler (labelled_pod ''a'' ''g'' ''2'') wide_scores) ! 0)
         \<le>s NodeScore_Score (fst (NormalizeScore wide_scheduler (labelled_pod ''a'' ''g'' ''2'') wide_scores) ! 1)"
proof -
  have raw: "NodeScore_Score (wide_scores ! 0) <s NodeScore_Score (wide_scores ! 1)"
    by (simp add: wide_scores_def mk_score_def word_sless_alt)
  have "\<not> NodeScore_Score (fst (NormalizeScore wide_scheduler (labelled_pod ''a'' ''g'' ''2'') wide_scores) ! 0)
          \<le>s NodeScore_Score (fst (NormalizeScore wide_scheduler (labelled_pod ''a'' ''g'' ''2'') wide_scores) ! 1)"
    unfolding NormalizeScore_wide_scores by (simp add: mk_score_def word_sle_eq)
  with raw show ?thesis by simp
qed

section \<open>The normalizer without overflow\<close>

text \<open>
  Where the arithmetic does not overflow, the normalizer does keep every score inside
  the bounds and does keep the order of the raw scores.
\<close>

lemma NormalizeScore_bounds_no_overflow:
  assumes "no_overflow scores"
  shows "\<forall>r \<in> set (fst (NormalizeScore cs pod scores)).
           MinNodeScore \<le>s NodeScore_Score r \<and> NodeScore_Score r \<le>s MaxNodeScore"
proof (cases "scores = []")
  case True
  then show ?thesis by (simp add: NormalizeScore_def MaxInt64_def MinInt64_def)
next
  case False
  obtain mn mx where sc: "scan_min_max scores (MaxInt64, MinInt64) = (mn, mx)"
    by (cases "scan_min_max scores (MaxInt64, MinInt64)")
  show ?thesis
  proof (cases "mx - mn = 0")
    case True
    with sc have "fst (NormalizeScore cs pod scores) = assign_midpoint scores"
      by (simp add: NormalizeScore_def)
    moreover have "MinNodeScore \<le>s (50 :: int64) \<and> (50 :: int64) \<le>s MaxNodeScore"
      by (simp add: MinNodeScore_def MaxNodeScore_def word_sle_eq)
    ultimately show ?thesis
      by (auto simp: assign_midpoint_map midpoint_value)
  next
    case nz: False
    note n = NormalizeScore_no_overflow(1) [OF assms False sc nz, of cs pod]
      NormalizeScore_no_overflow(2) [OF assms False sc nz]
      NormalizeScore_no_overflow(3) [OF assms False sc nz]
    show ?thesis
    proof
      fix r assume "r \<in> set (fst (NormalizeScore cs pod scores))"
      then obtain e where e: "e \<in> set scores"
        and r: "NodeScore_Score r = MinNodeScore
                  + int64_quo ((NodeScore_Score e - mn) * (MaxNodeScore - MinNodeScore)) (mx - mn)"
        unfolding n(1) rescale_map by auto
      define d where "d = sint (NodeScore_Score e) - sint mn"
      define w where "w = sint mx - sint mn"
      have v: "sint (NodeScore_Score r) = (d * 100) div w"
        using n(3) e r by (simp add: d_def w_def)
      have dw: "0 \<le> d" "d \<le> w" "0 < w"
        using n(2) n(3) e by (auto simp: d_def w_def)
      have "0 \<le> (d * 100) div w" using dw by (simp add: pos_imp_zdiv_nonneg_iff)
      moreover have "(d * 100) div w \<le> (w * 100) div w"
        using dw by (intro zdiv_mono1) simp_all
      moreover have "(w * 100) div w = 100" using dw by simp
      ultimately show "MinNodeScore \<le>s NodeScore_Score r \<and> NodeScore_Score r \<le>s MaxNodeScore"
        using v by (simp add: word_sle_eq MinNodeScore_def MaxNodeScore_def)
    qed
  qed
qed

lemma NormalizeScore_monotone_no_overflow:
  assumes "no_overflow scores" and "i < length scores" and "j < length scores"
    and "NodeScore_Score (scores ! i) <s NodeScore_Score (scores ! j)"
  shows "NodeScore_Score (fst (NormalizeScore cs pod scores) ! i)
         \<le>s NodeScore_Score (fst (NormalizeScore cs pod scores) ! j)"
proof -
  have ne: "scores \<noteq> []" using assms(2) by auto
  obtain mn mx where sc: "scan_min_max scores (MaxInt64, MinInt64) = (mn, mx)"
    by (cases "scan_min_max scores (MaxInt64, MinInt64)")
  show ?thesis
  proof (cases "mx - mn = 0")
    case True
    with sc have "fst (NormalizeScore cs pod scores) = assign_midpoint scores"
      by (simp add: NormalizeScore_def)
    then show ?thesis
      using assms(2,3) by (simp add: assign_midpoint_map)
  next
    case nz: False
    note n = NormalizeScore_no_overflow(1) [OF assms(1) ne sc nz, of cs pod]
      NormalizeScore_no_overflow(2) [OF assms(1) ne sc nz]
      NormalizeScore_no_overflow(3) [OF assms(1) ne sc nz]
    have ei: "scores ! i \<in> set scores" and ej: "scores ! j \<in> set scores"
      using assms(2,3) by simp_all
    define w where "w = sint mx - sint mn"
    have w: "0 < w" using n(2) by (simp add: w_def)
    have vi: "sint (NodeScore_Score (fst (NormalizeScore cs pod scores) ! i))
              = ((sint (NodeScore_Score (scores ! i)) - sint mn) * 100) div w"
      unfolding n(1) rescale_map using assms(2) n(3) ei by (simp add: w_def)
    have vj: "sint (NodeScore_Score (fst (NormalizeScore cs pod scores) ! j))
              = ((sint (NodeScore_Score (scores ! j)) - sint mn) * 100) div w"
      unfolding n(1) rescale_map using assms(3) n(3) ej by (simp add: w_def)
    have "(sint (NodeScore_Score (scores ! i)) - sint mn) * 100
          \<le> (sint (NodeScore_Score (scores ! j)) - sint mn) * 100"
      using assms(4) by (simp add: word_sless_alt)
    then have "((sint (NodeScore_Score (scores ! i)) - sint mn) * 100) div w
          \<le> ((sint (NodeScore_Score (scores ! j)) - sint mn) * 100) div w"
      using w by (rule zdiv_mono1)
    then show ?thesis by (simp add: word_sle_eq vi vj)
  qed
qed

end
